theory Spec2Isabelle
  imports Main "HOL-Library.Sublist"
begin

section \<open>The Slack and Spaces providers of oauth2\_proxy\<close>

text \<open>
  A shallow embedding of \<^verbatim>\<open>providers/slack.go\<close>, of the earlier revision of the same
  file and of the Spaces provider (both found in the unnamed source part). Every
  method has a pointer receiver, so a method is a function on a \<open>world\<close>: the provider
  object together with everything the program has written and sent so far. A method
  returns its Go result and the world it leaves behind.
\<close>

subsection \<open>Data\<close>

text \<open>\<^verbatim>\<open>url.URL\<close>, with the four fields the providers set.\<close>

record URL =
  Scheme :: string
  Host :: string
  Path :: string
  RawQuery :: string

text \<open>
  Modelled from the spec: the declarations of \<^verbatim>\<open>ProviderData\<close> and
  \<^verbatim>\<open>SessionState\<close> are not among the sources. \<open>ProviderData\<close> has the fields the
  providers read and write (the spec's ProviderConfig: the three endpoint URLs, the
  scope string, the approval prompt, the client ID); \<open>SessionState\<close> has the access
  token (the spec's Session). The URL pointers are non-nil once a constructor has run,
  so the record holds the URLs themselves.
\<close>

record ProviderData =
  ProviderName :: string
  ClientID :: string
  LoginURL :: URL
  RedeemURL :: URL
  ValidateURL :: URL
  Scope :: string
  ApprovalPrompt :: string

record SessionState =
  AccessToken :: string

text \<open>
  The response structs. Go lets several structs share a field name; here each field
  carries its struct's initials: \<open>ui\<close> for \<^verbatim>\<open>SlackUserItem\<close>, \<open>idr\<close> for
  \<^verbatim>\<open>SlackUserIdentityResponse\<close>, \<open>gi\<close> for \<^verbatim>\<open>SlackGroupItem\<close>, \<open>glr\<close> for
  \<^verbatim>\<open>SlackGroupListResponse\<close>, \<open>atr\<close> for \<^verbatim>\<open>SlackAuthTestResponse\<close>, \<open>sui\<close> for
  \<^verbatim>\<open>SpacesUserIdentityResponse\<close> and \<open>ssr\<close> for \<^verbatim>\<open>SpacesSpaceResponse\<close>.
\<close>

record SlackUserItem =
  ui_ID :: string
  ui_Name :: string
  ui_Email :: string

record SlackUserIdentityResponse =
  idr_OK :: bool
  idr_User :: SlackUserItem
  idr_Team :: SlackUserItem

record SlackGroupItem =
  gi_ID :: string
  gi_Name :: string

record SlackGroupListResponse =
  glr_OK :: bool
  glr_Groups :: "SlackGroupItem list"

record SlackAuthTestResponse =
  atr_OK :: bool

record SpacesUserIdentityResponse =
  sui_ID :: string
  sui_EMail :: string

record SpacesSpaceResponse =
  ssr_ID :: string

text \<open>
  The two providers embed \<^verbatim>\<open>*ProviderData\<close>; a record extension promotes its fields
  the same way (\<open>Scope p\<close>, \<open>ValidateURL p\<close>).
\<close>

record SlackProvider = ProviderData +
  TeamID :: string
  GroupID :: string

record SpacesProvider = ProviderData +
  APIUser :: string
  APISpace :: string
  SpaceID :: string

subsection \<open>HTTP, errors and effects\<close>

text \<open>
  \<^verbatim>\<open>url.Values\<close> and \<^verbatim>\<open>http.Header\<close> are both \<^verbatim>\<open>map[string][]string\<close>.
\<close>

type_synonym Values = "string \<rightharpoonup> string list"

definition Values_Add :: "Values \<Rightarrow> string \<Rightarrow> string \<Rightarrow> Values" where
  "Values_Add v key val =
     v(key \<mapsto> (case v key of None \<Rightarrow> [val] | Some vs \<Rightarrow> vs @ [val]))"

definition Header_Get :: "Values \<Rightarrow> string \<Rightarrow> string" where
  \<comment> \<open>The first value of the key, or the empty string. The one key the providers
      look up, \<^verbatim>\<open>X-Oauth-Scopes\<close>, is already in canonical form.\<close>
  "Header_Get h key = (case h key of None \<Rightarrow> [] | Some [] \<Rightarrow> [] | Some (v # _) \<Rightarrow> v)"

record http_request =
  req_Method :: string
  req_URL :: URL
  req_Header :: Values

text \<open>
  A response as the providers see it: the status, the headers, and what
  \<^verbatim>\<open>ioutil.ReadAll(resp.Body)\<close> gives (\<open>Inl\<close> its error, \<open>Inr\<close> the bytes).
\<close>

record http_response =
  StatusCode :: int
  Header :: Values
  Body :: "string + string"

datatype error =
    TransportError string
  | ReadError string
  | StatusError int URL string
  | UnmarshalError string
  | IdentityNotOk SlackUserIdentityResponse
  | GroupsNotOk SlackGroupListResponse
  | TeamMismatch
  | GroupMismatch

text \<open>
  The errors, in the order of the list: the error of \<^verbatim>\<open>http.DefaultClient.Do\<close>; the
  error of \<^verbatim>\<open>ioutil.ReadAll\<close>; \<^verbatim>\<open>fmt.Errorf("got %d from %q %s", ...)\<close> with the status,
  the endpoint and the body; the error of \<^verbatim>\<open>json.Unmarshal\<close>;
  \<^verbatim>\<open>fmt.Errorf("slack response is not ok: %v", ...)\<close> of \<^verbatim>\<open>getIdentity\<close> and of
  \<^verbatim>\<open>getGroups\<close>; \<^verbatim>\<open>fmt.Errorf("team id doesn't match")\<close>;
  \<^verbatim>\<open>fmt.Errorf("group id doesn't match")\<close>.
\<close>

text \<open>
  What a call does besides returning: the request it sends, a line on standard
  output (\<^verbatim>\<open>fmt.Println\<close> of a string or of a response), a line of the log
  (\<^verbatim>\<open>log.Printf\<close> of the team or of the group mismatch, with its arguments).
\<close>

datatype event =
    HTTP_Do http_request
  | Println_string string
  | Println_response http_response
  | Log_teamid string string
  | Log_groupid "SlackGroupItem list" string

record 'p world =
  prov :: 'p
  events :: "event list"

definition emit :: "event \<Rightarrow> 'p world \<Rightarrow> 'p world" where
  "emit e w = w\<lparr>events := events w @ [e]\<rparr>"

text \<open>The requests among the events, in the order they were sent.\<close>

definition requests :: "event list \<Rightarrow> http_request list" where
  "requests es = concat (map (\<lambda>e. case e of HTTP_Do r \<Rightarrow> [r] | _ \<Rightarrow> []) es)"

text \<open>
  The library and the network, as parameters: the upstream behind
  \<^verbatim>\<open>http.DefaultClient.Do\<close> (\<open>Inl\<close> its error), \<^verbatim>\<open>path.Join\<close> of two elements,
  \<^verbatim>\<open>url.Values.Encode\<close>, \<^verbatim>\<open>fmt.Sprintf\<close> of a format and one string, and
  \<^verbatim>\<open>json.Unmarshal\<close> into each of the five response structs (\<open>Inl\<close> its error). An
  \<open>env\<close> is fixed across calls: the same request gets the same response.
\<close>

record env =
  http_Do :: "http_request \<Rightarrow> string + http_response"
  path_Join :: "string \<Rightarrow> string \<Rightarrow> string"
  Values_Encode :: "Values \<Rightarrow> string"
  fmt_Sprintf :: "string \<Rightarrow> string \<Rightarrow> string"
  Unmarshal_identity :: "string \<Rightarrow> string + SlackUserIdentityResponse"
  Unmarshal_groups :: "string \<Rightarrow> string + SlackGroupListResponse"
  Unmarshal_authtest :: "string \<Rightarrow> string + SlackAuthTestResponse"
  Unmarshal_spaces_user :: "string \<Rightarrow> string + SpacesUserIdentityResponse"
  Unmarshal_spaces_space :: "string \<Rightarrow> string + SpacesSpaceResponse"

text \<open>\<^verbatim>\<open>strings.Contains\<close>: some position of \<open>s\<close> starts with \<open>substr\<close>.\<close>

fun strings_Contains :: "string \<Rightarrow> string \<Rightarrow> bool" where
  "strings_Contains [] substr = (substr = [])"
| "strings_Contains (c # s) substr =
     (if prefix substr (c # s) then True else strings_Contains s substr)"

subsection \<open>The Slack provider (\<^verbatim>\<open>providers/slack.go\<close>)\<close>

text \<open>
  The request \<^verbatim>\<open>getEndpoint\<close> builds: the token joins the query parameters, the
  endpoint's name joins the validation path.
\<close>

definition Slack_request ::
  "env \<Rightarrow> SlackProvider \<Rightarrow> string \<Rightarrow> string \<Rightarrow> Values option \<Rightarrow> http_request" where
  "Slack_request env p endpointName accessToken params =
     (let params' = (case params of
                       Some v \<Rightarrow> Values_Add v ''token'' accessToken
                     | None \<Rightarrow> [''token'' \<mapsto> [accessToken]]);
          endpoint = \<lparr>Scheme = Scheme (ValidateURL p),
                      Host = Host (ValidateURL p),
                      Path = path_Join env (Path (ValidateURL p)) (''/'' @ endpointName),
                      RawQuery = Values_Encode env params'\<rparr>
      in \<lparr>req_Method = ''GET'', req_URL = endpoint, req_Header = Map.empty\<rparr>)"

definition getEndpoint ::
  "env \<Rightarrow> string \<Rightarrow> string \<Rightarrow> Values option \<Rightarrow> (string \<Rightarrow> string + 'a) \<Rightarrow>
   SlackProvider world \<Rightarrow> (error + http_response \<times> 'a) \<times> SlackProvider world" where
  "getEndpoint env endpointName accessToken params responseItem w =
     (let req = Slack_request env (prov w) endpointName accessToken params;
          w1 = emit (HTTP_Do req) w
      in case http_Do env req of
           Inl err \<Rightarrow> (Inl (TransportError err), w1)
         | Inr resp \<Rightarrow>
             (case Body resp of
                Inl err \<Rightarrow> (Inl (ReadError err), w1)
              | Inr body \<Rightarrow>
                  if StatusCode resp \<noteq> 200
                  then (Inl (StatusError (StatusCode resp) (req_URL req) body), w1)
                  else (case responseItem body of
                          Inl err \<Rightarrow> (Inl (UnmarshalError err), w1)
                        | Inr item \<Rightarrow> (Inr (resp, item), w1))))"

definition getIdentity ::
  "env \<Rightarrow> string \<Rightarrow> SlackProvider world \<Rightarrow>
   (error + SlackUserIdentityResponse) \<times> SlackProvider world" where
  "getIdentity env accessToken w =
     (case getEndpoint env ''users.identity'' accessToken None (Unmarshal_identity env) w of
        (Inl err, w1) \<Rightarrow> (Inl err, w1)
      | (Inr (_, userIdentity), w1) \<Rightarrow>
          if idr_OK userIdentity = True then (Inr userIdentity, w1)
          else (Inl (IdentityNotOk userIdentity), w1))"

definition groups_params :: Values where
  "groups_params = [''exclude_archived'' \<mapsto> [''true''], ''exclude_members'' \<mapsto> [''true'']]"

definition getGroups ::
  "env \<Rightarrow> string \<Rightarrow> SlackProvider world \<Rightarrow>
   (error + SlackGroupListResponse) \<times> SlackProvider world" where
  "getGroups env accessToken w =
     (case getEndpoint env ''groups.list'' accessToken (Some groups_params)
             (Unmarshal_groups env) w of
        (Inl err, w1) \<Rightarrow> (Inl err, w1)
      | (Inr (_, groupList), w1) \<Rightarrow>
          if glr_OK groupList = True then (Inr groupList, w1)
          else (Inl (GroupsNotOk groupList), w1))"

definition hasTeamID :: "SlackProvider \<Rightarrow> SlackUserIdentityResponse \<Rightarrow> bool" where
  "hasTeamID p resp = (ui_ID (idr_Team resp) = TeamID p)"

text \<open>The loop of \<^verbatim>\<open>hasGroupID\<close> over \<^verbatim>\<open>resp.Groups\<close>.\<close>

fun hasGroupID_range :: "SlackProvider \<Rightarrow> SlackGroupItem list \<Rightarrow> bool" where
  "hasGroupID_range p [] = False"
| "hasGroupID_range p (grp # rest) =
     (if gi_ID grp = GroupID p then True else hasGroupID_range p rest)"

definition hasGroupID :: "SlackProvider \<Rightarrow> SlackGroupListResponse \<Rightarrow> bool" where
  "hasGroupID p resp = hasGroupID_range p (glr_Groups resp)"

definition GetEmailAddress ::
  "env \<Rightarrow> SessionState \<Rightarrow> SlackProvider world \<Rightarrow>
   (string \<times> error option) \<times> SlackProvider world" where
  "GetEmailAddress env s w =
     (case getIdentity env (AccessToken s) w of
        (Inl err, w1) \<Rightarrow> (([], None), w1)
      | (Inr userIdentity, w1) \<Rightarrow>
          if TeamID (prov w1) \<noteq> [] \<and> \<not> hasTeamID (prov w1) userIdentity
          then (([], Some TeamMismatch),
                emit (Log_teamid (ui_ID (idr_Team userIdentity)) (TeamID (prov w1))) w1)
          else if GroupID (prov w1) \<noteq> []
          then (case getGroups env (AccessToken s) w1 of
                  (Inl err, w2) \<Rightarrow> (([], None), w2)
                | (Inr groupList, w2) \<Rightarrow>
                    if \<not> hasGroupID (prov w2) groupList
                    then (([], Some GroupMismatch),
                          emit (Log_groupid (glr_Groups groupList) (GroupID (prov w2))) w2)
                    else if ui_Email (idr_User userIdentity) \<noteq> []
                    then ((ui_Email (idr_User userIdentity), None), w2)
                    else (([], None), w2))
          else if ui_Email (idr_User userIdentity) \<noteq> []
          then ((ui_Email (idr_User userIdentity), None), w1)
          else (([], None), w1))"

definition SecondAttempt ::
  "env \<Rightarrow> SessionState \<Rightarrow> SlackProvider world \<Rightarrow> bool \<times> SlackProvider world" where
  "SecondAttempt env session w =
     (case getEndpoint env ''auth.test'' (AccessToken session) None
             (Unmarshal_authtest env) w of
        (Inl err, w1) \<Rightarrow> (False, w1)
      | (Inr (resp, _), w1) \<Rightarrow>
          if strings_Contains (Header_Get (Header resp) ''X-Oauth-Scopes'') ''groups''
             \<or> GroupID (prov w1) = []
          then (False, w1)
          else (True, w1))"

subsection \<open>The earlier revision of the Slack provider\<close>

text \<open>
  The unnamed source part holds an earlier revision of \<^verbatim>\<open>slack.go\<close>. Its
  \<^verbatim>\<open>getEndpoint\<close> returns the error alone, and \<^verbatim>\<open>getIdentity\<close>, \<^verbatim>\<open>getGroups\<close>,
  \<^verbatim>\<open>hasTeamID\<close>, \<^verbatim>\<open>hasGroupID\<close> and \<^verbatim>\<open>GetEmailAddress\<close> are, line for line, the ones
  above. Its \<^verbatim>\<open>SecondAttempt\<close> takes no session: it prints the group ID, reads the
  configured scope and overwrites it.
\<close>

definition SecondAttempt_scope :: "SlackProvider world \<Rightarrow> bool \<times> SlackProvider world" where
  "SecondAttempt_scope w =
     (let w1 = emit (Println_string (GroupID (prov w))) w
      in if strings_Contains (Scope (prov w1)) ''groups:read'' \<or> GroupID (prov w1) = []
         then (False, w1)
         else (True, w1\<lparr>prov := (prov w1)\<lparr>Scope := ''groups:read''\<rparr>\<rparr>))"

subsection \<open>The Spaces provider\<close>

definition SetSpaceID :: "string \<Rightarrow> SpacesProvider world \<Rightarrow> SpacesProvider world" where
  "SetSpaceID space w = w\<lparr>prov := (prov w)\<lparr>SpaceID := space\<rparr>\<rparr>"

text \<open>
  The request of the Spaces \<^verbatim>\<open>getEndpoint\<close>: the token travels in the
  \<^verbatim>\<open>Authorization\<close> header, and the endpoint's name joins the path as it is.
\<close>

definition Spaces_request ::
  "env \<Rightarrow> SpacesProvider \<Rightarrow> string \<Rightarrow> string \<Rightarrow> Values option \<Rightarrow> http_request" where
  "Spaces_request env p endpointName accessToken params =
     (let params' = (case params of None \<Rightarrow> Map.empty | Some v \<Rightarrow> v);
          endpoint = \<lparr>Scheme = Scheme (ValidateURL p),
                      Host = Host (ValidateURL p),
                      Path = path_Join env (Path (ValidateURL p)) endpointName,
                      RawQuery = Values_Encode env params'\<rparr>
      in \<lparr>req_Method = ''GET'', req_URL = endpoint,
          req_Header = [''Authorization'' \<mapsto> [''Bearer '' @ accessToken]]\<rparr>)"

definition Spaces_getEndpoint ::
  "env \<Rightarrow> string \<Rightarrow> string \<Rightarrow> Values option \<Rightarrow> (string \<Rightarrow> string + 'a) \<Rightarrow>
   SpacesProvider world \<Rightarrow> (error + http_response \<times> 'a) \<times> SpacesProvider world" where
  "Spaces_getEndpoint env endpointName accessToken params responseItem w =
     (let req = Spaces_request env (prov w) endpointName accessToken params;
          w1 = emit (Println_string accessToken) w;
          w2 = emit (HTTP_Do req) w1
      in case http_Do env req of
           Inl err \<Rightarrow> (Inl (TransportError err), w2)
         | Inr resp \<Rightarrow>
             (let w3 = emit (Println_response resp) w2
              in case Body resp of
                   Inl err \<Rightarrow> (Inl (ReadError err), w3)
                 | Inr body \<Rightarrow>
                     if StatusCode resp \<noteq> 200
                     then (Inl (StatusError (StatusCode resp) (req_URL req) body), w3)
                     else (case responseItem body of
                             Inl err \<Rightarrow> (Inl (UnmarshalError err), w3)
                           | Inr item \<Rightarrow> (Inr (resp, item), w3))))"

definition Spaces_GetEmailAddress ::
  "env \<Rightarrow> SessionState \<Rightarrow> SpacesProvider world \<Rightarrow>
   (string \<times> error option) \<times> SpacesProvider world" where
  "Spaces_GetEmailAddress env s w =
     (case Spaces_getEndpoint env (APIUser (prov w)) (AccessToken s) None
             (Unmarshal_spaces_user env) w of
        (Inl err, w1) \<Rightarrow> (([], Some err), w1)
      | (Inr (_, userIdentity), w1) \<Rightarrow>
          if SpaceID (prov w1) \<noteq> []
          then (case Spaces_getEndpoint env
                       (fmt_Sprintf env (APISpace (prov w1)) (SpaceID (prov w1)))
                       (AccessToken s) None (Unmarshal_spaces_space env) w1 of
                  (Inl err, w2) \<Rightarrow> (([], Some err), w2)
                | (Inr _, w2) \<Rightarrow> ((sui_EMail userIdentity, None), w2))
          else ((sui_EMail userIdentity, None), w1))"

subsection \<open>A stub upstream and the scenarios of the specification\<close>

text \<open>
  A stub of the library and the network, for evaluating the providers on concrete
  inputs: the upstream answers by the path of the request, and a body is decoded by
  looking it up among the bodies the scenarios use.
\<close>

definition ok_response :: "string \<Rightarrow> http_response" where
  "ok_response body = \<lparr>StatusCode = 200, Header = Map.empty, Body = Inr body\<rparr>"

definition status_response :: "int \<Rightarrow> string \<Rightarrow> http_response" where
  "status_response code body = \<lparr>StatusCode = code, Header = Map.empty, Body = Inr body\<rparr>"

definition scopes_response :: "string \<Rightarrow> http_response" where
  "scopes_response scopes =
     \<lparr>StatusCode = 200, Header = [''X-Oauth-Scopes'' \<mapsto> [scopes]], Body = Inr ''{ok:true}''\<rparr>"

definition identity_A :: SlackUserIdentityResponse where
  "identity_A =
     \<lparr>idr_OK = True,
      idr_User = \<lparr>ui_ID = [], ui_Name = [], ui_Email = ''a@x.com''\<rparr>,
      idr_Team = \<lparr>ui_ID = ''T1'', ui_Name = [], ui_Email = []\<rparr>\<rparr>"

definition groups_G1_G9 :: SlackGroupListResponse where
  "groups_G1_G9 =
     \<lparr>glr_OK = True,
      glr_Groups = [\<lparr>gi_ID = ''G1'', gi_Name = []\<rparr>, \<lparr>gi_ID = ''G9'', gi_Name = []\<rparr>]\<rparr>"

definition stub_env :: "(string \<Rightarrow> string + http_response) \<Rightarrow> env" where
  "stub_env upstream =
     \<lparr>http_Do = (\<lambda>req. upstream (Path (req_URL req))),
      path_Join = (\<lambda>dir elem. if prefix ''/'' elem then dir @ elem else dir @ ''/'' @ elem),
      Values_Encode = (\<lambda>v. []),
      fmt_Sprintf = (\<lambda>format a. takeWhile (\<lambda>c. c \<noteq> CHR ''%'') format @ a),
      Unmarshal_identity = (\<lambda>body.
        if body = ''{ok:true,user:{email:a@x.com},team:{id:T1}}'' then Inr identity_A
        else if body = ''{ok:false}'' then Inr (identity_A\<lparr>idr_OK := False\<rparr>)
        else Inl ''invalid character''),
      Unmarshal_groups = (\<lambda>body.
        if body = ''{ok:true,groups:[{id:G1},{id:G9}]}'' then Inr groups_G1_G9
        else if body = ''{ok:false}'' then Inr (groups_G1_G9\<lparr>glr_OK := False\<rparr>)
        else Inl ''invalid character''),
      Unmarshal_authtest = (\<lambda>body.
        if body = ''{ok:true}'' then Inr \<lparr>atr_OK = True\<rparr> else Inl ''invalid character''),
      Unmarshal_spaces_user = (\<lambda>body.
        if body = ''{id:U7,email:b@y.org}'' then Inr \<lparr>sui_ID = ''U7'', sui_EMail = ''b@y.org''\<rparr>
        else Inl ''invalid character''),
      Unmarshal_spaces_space = (\<lambda>body.
        if body = ''{id:OTHER}'' then Inr \<lparr>ssr_ID = ''OTHER''\<rparr>
        else Inl ''invalid character'')\<rparr>"

definition slack_provider :: "string \<Rightarrow> string \<Rightarrow> SlackProvider" where
  \<comment> \<open>What \<^verbatim>\<open>NewSlackProvider\<close> builds from an empty \<^verbatim>\<open>ProviderData\<close>, then
      \<^verbatim>\<open>TeamID\<close> and \<^verbatim>\<open>GroupID\<close> as given.\<close>
  "slack_provider team grp =
     \<lparr>ProviderName = ''slack'', ClientID = [],
      LoginURL = \<lparr>Scheme = ''https'', Host = ''slack.com'', Path = ''/oauth/authorize'', RawQuery = []\<rparr>,
      RedeemURL = \<lparr>Scheme = ''https'', Host = ''slack.com'', Path = ''/api/oauth.access'', RawQuery = []\<rparr>,
      ValidateURL = \<lparr>Scheme = ''https'', Host = ''slack.com'', Path = ''/api'', RawQuery = []\<rparr>,
      Scope = ''identity.basic identity.email'', ApprovalPrompt = [],
      TeamID = team, GroupID = grp\<rparr>"

definition spaces_provider :: "string \<Rightarrow> SpacesProvider" where
  \<comment> \<open>What \<^verbatim>\<open>NewSpacesProvider\<close> builds from an empty \<^verbatim>\<open>ProviderData\<close>, then
      \<^verbatim>\<open>SpaceID\<close> as given.\<close>
  "spaces_provider space =
     \<lparr>ProviderName = ''spaces'', ClientID = [],
      LoginURL = \<lparr>Scheme = ''https'', Host = ''signup.spaces.de'', Path = ''/o/oauth2/auth'', RawQuery = []\<rparr>,
      RedeemURL = \<lparr>Scheme = ''https'', Host = ''signup.spaces.de'', Path = ''/o/oauth2/token'', RawQuery = []\<rparr>,
      ValidateURL = \<lparr>Scheme = ''https'', Host = ''api.spaces.de'', Path = ''/v1'', RawQuery = []\<rparr>,
      Scope = ''profile:read spaces:read'', ApprovalPrompt = [],
      APIUser = ''users/me/profile'', APISpace = ''spaces/%s'', SpaceID = space\<rparr>"

definition start :: "'p \<Rightarrow> 'p world" where
  "start p = \<lparr>prov = p, events = []\<rparr>"

definition session :: SessionState where
  "session = \<lparr>AccessToken = ''xoxp-secret''\<rparr>"

text \<open>The upstreams of the scenarios: each answers the paths it lists.\<close>

definition upstream_A :: "string \<Rightarrow> string + http_response" where
  "upstream_A path =
     (if path = ''/api/users.identity''
      then Inr (ok_response ''{ok:true,user:{email:a@x.com},team:{id:T1}}'')
      else if path = ''/api/groups.list''
      then Inr (ok_response ''{ok:true,groups:[{id:G1},{id:G9}]}'')
      else if path = ''/api/auth.test''
      then Inr (scopes_response ''identity.basic,identity.email'')
      else Inl ''no such host'')"

definition upstream_identity_500 :: "string \<Rightarrow> string + http_response" where
  "upstream_identity_500 path = Inr (status_response 500 ''internal error'')"

definition upstream_groups_down :: "string \<Rightarrow> string + http_response" where
  "upstream_groups_down path =
     (if path = ''/api/users.identity''
      then Inr (ok_response ''{ok:true,user:{email:a@x.com},team:{id:T1}}'')
      else Inl ''connection refused'')"

definition upstream_down :: "string \<Rightarrow> string + http_response" where
  "upstream_down path = Inl ''connection refused''"

definition upstream_garbage :: "string \<Rightarrow> string + http_response" where
  "upstream_garbage path = Inr (ok_response ''<html>'')"

definition upstream_not_ok :: "string \<Rightarrow> string + http_response" where
  "upstream_not_ok path = Inr (ok_response ''{ok:false}'')"

definition upstream_escalated :: "string \<Rightarrow> string + http_response" where
  "upstream_escalated path =
     (if path = ''/api/auth.test''
      then Inr (scopes_response ''identity.basic,identity.email,groups:read'')
      else upstream_A path)"

definition upstream_scopes_500 :: "string \<Rightarrow> string + http_response" where
  "upstream_scopes_500 path =
     Inr \<lparr>StatusCode = 500, Header = [''X-Oauth-Scopes'' \<mapsto> [''identity.basic'']],
          Body = Inr ''internal error''\<rparr>"

definition upstream_spaces :: "string \<Rightarrow> string + http_response" where
  "upstream_spaces path =
     (if path = ''/v1/users/me/profile'' then Inr (ok_response ''{id:U7,email:b@y.org}'')
      else if path = ''/v1/spaces/S1'' then Inr (ok_response ''{id:OTHER}'')
      else Inl ''no such host'')"

section \<open>Properties\<close>

subsection \<open>What each call leaves behind\<close>

lemma strings_Contains_sublist: "strings_Contains s substr \<longleftrightarrow> sublist substr s"
  by (induction s) (auto simp: sublist_Cons_right)

lemma prov_emit: "prov (emit e w) = prov w"
  by (simp add: emit_def)

lemma events_emit: "events (emit e w) = events w @ [e]"
  by (simp add: emit_def)

lemma requests_emit:
  "requests (events (emit e w)) =
     requests (events w) @ (case e of HTTP_Do r \<Rightarrow> [r] | _ \<Rightarrow> [])"
  by (simp add: requests_def emit_def)

text \<open>
  \<^verbatim>\<open>getEndpoint\<close> sends one request and writes nothing; its result is decided by
  the provider and the upstream, not by what was sent or written before.
\<close>

lemma getEndpoint_snd:
  "snd (getEndpoint env n t ps d w) = emit (HTTP_Do (Slack_request env (prov w) n t ps)) w"
  by (simp add: getEndpoint_def Let_def split: sum.splits)

lemma getEndpoint_fst_cong:
  "prov w = prov w' \<Longrightarrow> fst (getEndpoint env n t ps d w) = fst (getEndpoint env n t ps d w')"
  by (simp add: getEndpoint_def Let_def split: sum.splits)

lemma getIdentity_snd:
  "snd (getIdentity env t w) =
     emit (HTTP_Do (Slack_request env (prov w) ''users.identity'' t None)) w"
  using getEndpoint_snd [of env "''users.identity''" t None "Unmarshal_identity env" w]
  by (auto simp: getIdentity_def split: prod.splits sum.splits)

lemma getIdentity_fst_cong:
  "prov w = prov w' \<Longrightarrow> fst (getIdentity env t w) = fst (getIdentity env t w')"
  using getEndpoint_fst_cong [of w w' env "''users.identity''" t None "Unmarshal_identity env"]
  by (auto simp: getIdentity_def split: prod.splits sum.splits)

lemma getGroups_snd:
  "snd (getGroups env t w) =
     emit (HTTP_Do (Slack_request env (prov w) ''groups.list'' t (Some groups_params))) w"
  using getEndpoint_snd [of env "''groups.list''" t "Some groups_params" "Unmarshal_groups env" w]
  by (auto simp: getGroups_def split: prod.splits sum.splits)

lemma getGroups_fst_cong:
  "prov w = prov w' \<Longrightarrow> fst (getGroups env t w) = fst (getGroups env t w')"
  using getEndpoint_fst_cong
    [of w w' env "''groups.list''" t "Some groups_params" "Unmarshal_groups env"]
  by (auto simp: getGroups_def split: prod.splits sum.splits)

lemma hasGroupID_range_iff:
  "hasGroupID_range p gs \<longleftrightarrow> (\<exists>g\<in>set gs. gi_ID g = GroupID p)"
  by (induction gs) auto

lemma getIdentity_world:
  "fst (getIdentity env t w) = r \<Longrightarrow>
     getIdentity env t w =
       (r, emit (HTTP_Do (Slack_request env (prov w) ''users.identity'' t None)) w)"
  using getIdentity_snd [of env t w] by (cases "getIdentity env t w") simp

lemma getGroups_world:
  "fst (getGroups env t w) = r \<Longrightarrow>
     getGroups env t w =
       (r, emit (HTTP_Do (Slack_request env (prov w) ''groups.list'' t (Some groups_params))) w)"
  using getGroups_snd [of env t w] by (cases "getGroups env t w") simp

lemmas scenario_defs =
  stub_env_def ok_response_def status_response_def scopes_response_def identity_A_def
  groups_G1_G9_def slack_provider_def spaces_provider_def start_def session_def
  upstream_A_def upstream_identity_500_def upstream_groups_down_def upstream_not_ok_def
  upstream_down_def upstream_garbage_def
  upstream_escalated_def upstream_scopes_500_def upstream_spaces_def

lemmas slack_defs =
  GetEmailAddress_def getIdentity_def getGroups_def getEndpoint_def Slack_request_def
  hasTeamID_def hasGroupID_def emit_def groups_params_def Values_Add_def Header_Get_def
  SecondAttempt_def SecondAttempt_scope_def Let_def

lemmas spaces_defs =
  Spaces_GetEmailAddress_def Spaces_getEndpoint_def Spaces_request_def SetSpaceID_def

text \<open>
  The same for the Spaces \<^verbatim>\<open>getEndpoint\<close> and for the methods built on the two
  clients: none of them assigns to the provider, and the result of each is decided by
  the provider and the upstream alone.
\<close>

lemma Spaces_getEndpoint_prov:
  "prov (snd (Spaces_getEndpoint env n t ps d v)) = prov v"
  by (simp add: Spaces_getEndpoint_def Let_def prov_emit split: sum.splits)

lemma Spaces_getEndpoint_fst_cong:
  "prov v = prov v' \<Longrightarrow>
     fst (Spaces_getEndpoint env n t ps d v) = fst (Spaces_getEndpoint env n t ps d v')"
  by (simp add: Spaces_getEndpoint_def Let_def split: sum.splits)

lemma Spaces_getEndpoint_world:
  "fst (Spaces_getEndpoint env n t ps d v) = r \<Longrightarrow>
     \<exists>v1. Spaces_getEndpoint env n t ps d v = (r, v1) \<and> prov v1 = prov v"
  using Spaces_getEndpoint_prov [of env n t ps d v]
  by (cases "Spaces_getEndpoint env n t ps d v") simp

lemma GetEmailAddress_prov: "prov (snd (GetEmailAddress env s w)) = prov w"
proof -
  obtain r where id: "fst (getIdentity env (AccessToken s) w) = r"
    by simp
  let ?w1 = "emit (HTTP_Do (Slack_request env (prov w) ''users.identity'' (AccessToken s) None)) w"
  obtain g where gr: "fst (getGroups env (AccessToken s) ?w1) = g"
    by simp
  show ?thesis
    by (simp add: GetEmailAddress_def getIdentity_world [OF id] getGroups_world [OF gr]
        prov_emit split: sum.splits)
qed

lemma GetEmailAddress_fst_cong:
  assumes "prov w = prov w'"
  shows "fst (GetEmailAddress env s w) = fst (GetEmailAddress env s w')"
proof -
  let ?rq = "HTTP_Do (Slack_request env (prov w) ''users.identity'' (AccessToken s) None)"
  obtain r where id: "fst (getIdentity env (AccessToken s) w) = r"
    by simp
  then have id': "fst (getIdentity env (AccessToken s) w') = r"
    using getIdentity_fst_cong [OF assms] by simp
  obtain g where gr: "fst (getGroups env (AccessToken s) (emit ?rq w)) = g"
    by simp
  then have gr': "fst (getGroups env (AccessToken s) (emit ?rq w')) = g"
    using getGroups_fst_cong [of "emit ?rq w" "emit ?rq w'"] assms by (simp add: prov_emit)
  show ?thesis
    by (simp add: GetEmailAddress_def getIdentity_world [OF id] getIdentity_world [OF id']
        assms [symmetric] getGroups_world [OF gr] getGroups_world [OF gr'] prov_emit
        split: sum.splits)
qed

lemma Spaces_GetEmailAddress_prov:
  "prov (snd (Spaces_GetEmailAddress env s v)) = prov v"
proof -
  obtain r v1 where
    u: "Spaces_getEndpoint env (APIUser (prov v)) (AccessToken s) None
          (Unmarshal_spaces_user env) v = (r, v1)" and p1: "prov v1 = prov v"
    using Spaces_getEndpoint_world by blast
  obtain r2 v2 where
    sp: "Spaces_getEndpoint env (fmt_Sprintf env (APISpace (prov v)) (SpaceID (prov v)))
          (AccessToken s) None (Unmarshal_spaces_space env) v1 = (r2, v2)"
    and p2: "prov v2 = prov v"
    using Spaces_getEndpoint_world p1 by metis
  show ?thesis
    by (simp add: Spaces_GetEmailAddress_def u p1 sp p2 split: sum.splits)
qed

lemma Spaces_GetEmailAddress_fst_cong:
  assumes "prov v' = prov v"
  shows "fst (Spaces_GetEmailAddress env s v') = fst (Spaces_GetEmailAddress env s v)"
proof -
  let ?n2 = "fmt_Sprintf env (APISpace (prov v)) (SpaceID (prov v))"
  obtain r v1 where
    u: "Spaces_getEndpoint env (APIUser (prov v)) (AccessToken s) None
          (Unmarshal_spaces_user env) v = (r, v1)" and p1: "prov v1 = prov v"
    using Spaces_getEndpoint_world by blast
  have "fst (Spaces_getEndpoint env (APIUser (prov v)) (AccessToken s) None
          (Unmarshal_spaces_user env) v') = r"
    by (simp add: Spaces_getEndpoint_fst_cong [OF assms] u)
  then obtain v1' where
    u': "Spaces_getEndpoint env (APIUser (prov v)) (AccessToken s) None
          (Unmarshal_spaces_user env) v' = (r, v1')" and p1': "prov v1' = prov v"
    using Spaces_getEndpoint_world assms by metis
  obtain r2 v2 where
    sp: "Spaces_getEndpoint env ?n2 (AccessToken s) None (Unmarshal_spaces_space env) v1
          = (r2, v2)"
    using Spaces_getEndpoint_world by blast
  have "fst (Spaces_getEndpoint env ?n2 (AccessToken s) None (Unmarshal_spaces_space env) v1')
          = r2"
    using p1 p1' by (simp add: Spaces_getEndpoint_fst_cong [of v1' v1] sp)
  then obtain v2' where
    sp': "Spaces_getEndpoint env ?n2 (AccessToken s) None (Unmarshal_spaces_space env) v1'
          = (r2, v2')"
    using Spaces_getEndpoint_world by blast
  show ?thesis
    by (simp add: Spaces_GetEmailAddress_def assms u u' p1 p1' sp sp' split: sum.splits)
qed

lemma SecondAttempt_prov: "prov (snd (SecondAttempt env s w)) = prov w"
proof -
  obtain r where "fst (getEndpoint env ''auth.test'' (AccessToken s) None
                         (Unmarshal_authtest env) w) = r"
    by simp
  then have "getEndpoint env ''auth.test'' (AccessToken s) None (Unmarshal_authtest env) w =
      (r, emit (HTTP_Do (Slack_request env (prov w) ''auth.test'' (AccessToken s) None)) w)"
    using getEndpoint_snd [of env "''auth.test''" "AccessToken s" None "Unmarshal_authtest env" w]
    by (cases "getEndpoint env ''auth.test'' (AccessToken s) None (Unmarshal_authtest env) w")
       simp
  then show ?thesis
    by (simp add: SecondAttempt_def prov_emit split: sum.splits)
qed

lemma SecondAttempt_fst_cong:
  "prov w = prov w' \<Longrightarrow> fst (SecondAttempt env s w) = fst (SecondAttempt env s w')"
  by (simp add: SecondAttempt_def getEndpoint_def Let_def prov_emit split: sum.splits)

subsection \<open>The membership policy\<close>

text \<open>
  Claim C3. The team check passes iff the configured \<open>TeamID\<close> is empty or equals the
  envelope's \<open>team.id\<close> as a string, with no normalisation. \<^verbatim>\<open>hasTeamID\<close> is exact
  string equality, and once the identity is resolved \<^verbatim>\<open>GetEmailAddress\<close> denies with
  the team mismatch exactly when \<open>TeamID\<close> is non-empty and differs from \<open>team.id\<close>.
\<close>

theorem team_check_exact:
  "(hasTeamID p e \<longleftrightarrow> ui_ID (idr_Team e) = TeamID p)
   \<and> (fst (getIdentity env (AccessToken s) w) = Inr e \<longrightarrow>
        (snd (fst (GetEmailAddress env s w)) \<noteq> Some TeamMismatch
           \<longleftrightarrow> TeamID (prov w) = [] \<or> TeamID (prov w) = ui_ID (idr_Team e)))"
proof (intro conjI impI)
  show "hasTeamID p e \<longleftrightarrow> ui_ID (idr_Team e) = TeamID p"
    by (simp add: hasTeamID_def)
next
  assume id: "fst (getIdentity env (AccessToken s) w) = Inr e"
  show "snd (fst (GetEmailAddress env s w)) \<noteq> Some TeamMismatch
          \<longleftrightarrow> TeamID (prov w) = [] \<or> TeamID (prov w) = ui_ID (idr_Team e)"
    by (auto simp: GetEmailAddress_def getIdentity_world [OF id] prov_emit hasTeamID_def
        split: prod.splits sum.splits)
qed

text \<open>
  At \<open>TeamID = t1\<close> against the team \<open>T1\<close> (the two differ in case only) the check
  fails; at \<open>TeamID = T1\<close> it passes.
\<close>

theorem team_check_exact_witness:
  "fst (getIdentity (stub_env upstream_A) (AccessToken session)
          (start (slack_provider ''t1'' []))) = Inr identity_A
   \<and> \<not> hasTeamID (slack_provider ''t1'' []) identity_A
   \<and> snd (fst (GetEmailAddress (stub_env upstream_A) session
                 (start (slack_provider ''t1'' [])))) = Some TeamMismatch
   \<and> snd (fst (GetEmailAddress (stub_env upstream_A) session
                 (start (slack_provider ''T1'' [])))) \<noteq> Some TeamMismatch"
  using team_check_exact [of "slack_provider ''t1'' []" identity_A "stub_env upstream_A"
      session "start (slack_provider ''t1'' [])"]
    team_check_exact [of "slack_provider ''T1'' []" identity_A "stub_env upstream_A"
      session "start (slack_provider ''T1'' [])"]
  by (simp add: scenario_defs slack_defs)

text \<open>
  Claim C4. The group check passes iff the configured \<open>GroupID\<close> is empty or some
  element of the group list has that id; on an empty list \<^verbatim>\<open>hasGroupID\<close> is false.
  Once the identity is resolved and the team check has passed, \<^verbatim>\<open>GetEmailAddress\<close>
  returns the email when the group check passes and the group mismatch otherwise
  (the list is fetched only when \<open>GroupID\<close> is non-empty).
\<close>

theorem group_check_membership:
  "(hasGroupID p resp \<longleftrightarrow> (\<exists>g\<in>set (glr_Groups resp). gi_ID g = GroupID p))
   \<and> (glr_Groups resp = [] \<longrightarrow> \<not> hasGroupID p resp)
   \<and> (fst (getIdentity env (AccessToken s) w) = Inr e
        \<and> (TeamID (prov w) = [] \<or> TeamID (prov w) = ui_ID (idr_Team e))
        \<and> (GroupID (prov w) \<noteq> [] \<longrightarrow> fst (getGroups env (AccessToken s) w) = Inr gl) \<longrightarrow>
        fst (GetEmailAddress env s w) =
          (if GroupID (prov w) = [] \<or> (\<exists>g\<in>set (glr_Groups gl). gi_ID g = GroupID (prov w))
           then (ui_Email (idr_User e), None)
           else ([], Some GroupMismatch)))"
proof (intro conjI impI)
  show "hasGroupID p resp \<longleftrightarrow> (\<exists>g\<in>set (glr_Groups resp). gi_ID g = GroupID p)"
    by (simp add: hasGroupID_def hasGroupID_range_iff)
next
  assume "glr_Groups resp = []"
  then show "\<not> hasGroupID p resp"
    by (simp add: hasGroupID_def)
next
  assume a: "fst (getIdentity env (AccessToken s) w) = Inr e
        \<and> (TeamID (prov w) = [] \<or> TeamID (prov w) = ui_ID (idr_Team e))
        \<and> (GroupID (prov w) \<noteq> [] \<longrightarrow> fst (getGroups env (AccessToken s) w) = Inr gl)"
  then have id: "fst (getIdentity env (AccessToken s) w) = Inr e"
    and team: "TeamID (prov w) = [] \<or> TeamID (prov w) = ui_ID (idr_Team e)"
    by simp_all
  let ?w1 = "emit (HTTP_Do (Slack_request env (prov w) ''users.identity'' (AccessToken s) None)) w"
  let ?goal = "fst (GetEmailAddress env s w) =
          (if GroupID (prov w) = [] \<or> (\<exists>g\<in>set (glr_Groups gl). gi_ID g = GroupID (prov w))
           then (ui_Email (idr_User e), None)
           else ([], Some GroupMismatch))"
  show ?goal
  proof (cases "GroupID (prov w) = []")
    case True
    then show ?thesis
      using team
      by (auto simp: GetEmailAddress_def getIdentity_world [OF id] prov_emit hasTeamID_def)
  next
    case False
    with a have "fst (getGroups env (AccessToken s) w) = Inr gl"
      by simp
    then have gr: "fst (getGroups env (AccessToken s) ?w1) = Inr gl"
      using getGroups_fst_cong [of ?w1 w env "AccessToken s"] by (simp add: prov_emit)
    show ?thesis
      using team False
      by (auto simp: GetEmailAddress_def getIdentity_world [OF id] getGroups_world [OF gr]
          prov_emit hasTeamID_def hasGroupID_def hasGroupID_range_iff)
  qed
qed

theorem group_check_membership_witness:
  "fst (getIdentity (stub_env upstream_A) (AccessToken session)
          (start (slack_provider ''T1'' ''G9''))) = Inr identity_A
   \<and> fst (getGroups (stub_env upstream_A) (AccessToken session)
          (start (slack_provider ''T1'' ''G9''))) = Inr groups_G1_G9
   \<and> hasGroupID (slack_provider ''T1'' ''G9'') groups_G1_G9
   \<and> \<not> hasGroupID (slack_provider ''T1'' ''G9'') (groups_G1_G9\<lparr>glr_Groups := []\<rparr>)
   \<and> fst (GetEmailAddress (stub_env upstream_A) session (start (slack_provider ''T1'' ''G9'')))
       = (''a@x.com'', None)
   \<and> fst (GetEmailAddress (stub_env upstream_A) session (start (slack_provider ''T1'' ''G2'')))
       = ([], Some GroupMismatch)"
  using group_check_membership [of "slack_provider ''T1'' ''G9''" groups_G1_G9
      "stub_env upstream_A" session "start (slack_provider ''T1'' ''G9'')" identity_A groups_G1_G9]
    group_check_membership [of "slack_provider ''T1'' ''G9''"
      "groups_G1_G9\<lparr>glr_Groups := []\<rparr>"
      "stub_env upstream_A" session "start (slack_provider ''T1'' ''G2'')" identity_A groups_G1_G9]
  by (simp add: scenario_defs slack_defs)

text \<open>
  Claim C5. When \<open>TeamID\<close> is non-empty and the team check fails, \<^verbatim>\<open>GetEmailAddress\<close>
  returns the team-mismatch denial, and all it has done is send the identity
  request and write the log line: no request for the group list is sent. In every
  execution the requests sent are the identity request and, after it, the request for
  the group list exactly when the identity was resolved, the team check passed and a
  \<open>GroupID\<close> is configured.
\<close>

theorem team_mismatch_skips_groups:
  "(fst (getIdentity env (AccessToken s) w) = Inr e
      \<and> TeamID (prov w) \<noteq> [] \<and> ui_ID (idr_Team e) \<noteq> TeamID (prov w) \<longrightarrow>
      GetEmailAddress env s w =
        (([], Some TeamMismatch),
         w\<lparr>events := events w @
              [HTTP_Do (Slack_request env (prov w) ''users.identity'' (AccessToken s) None),
               Log_teamid (ui_ID (idr_Team e)) (TeamID (prov w))]\<rparr>))
   \<and> requests (events (snd (GetEmailAddress env s w))) =
       requests (events w)
       @ Slack_request env (prov w) ''users.identity'' (AccessToken s) None
       # (case fst (getIdentity env (AccessToken s) w) of
            Inl err \<Rightarrow> []
          | Inr e \<Rightarrow>
              if (TeamID (prov w) = [] \<or> TeamID (prov w) = ui_ID (idr_Team e))
                 \<and> GroupID (prov w) \<noteq> []
              then [Slack_request env (prov w) ''groups.list'' (AccessToken s)
                      (Some groups_params)]
              else [])"
proof (intro conjI impI)
  assume a: "fst (getIdentity env (AccessToken s) w) = Inr e
      \<and> TeamID (prov w) \<noteq> [] \<and> ui_ID (idr_Team e) \<noteq> TeamID (prov w)"
  then have id: "fst (getIdentity env (AccessToken s) w) = Inr e"
    by simp
  show "GetEmailAddress env s w =
        (([], Some TeamMismatch),
         w\<lparr>events := events w @
              [HTTP_Do (Slack_request env (prov w) ''users.identity'' (AccessToken s) None),
               Log_teamid (ui_ID (idr_Team e)) (TeamID (prov w))]\<rparr>)"
    using a
    by (simp add: GetEmailAddress_def getIdentity_world [OF id] prov_emit hasTeamID_def)
       (simp add: emit_def)
next
  let ?w1 = "emit (HTTP_Do (Slack_request env (prov w) ''users.identity'' (AccessToken s) None)) w"
  obtain r where id: "fst (getIdentity env (AccessToken s) w) = r"
    by simp
  obtain g where gr: "fst (getGroups env (AccessToken s) ?w1) = g"
    by simp
  show "requests (events (snd (GetEmailAddress env s w))) =
       requests (events w)
       @ Slack_request env (prov w) ''users.identity'' (AccessToken s) None
       # (case fst (getIdentity env (AccessToken s) w) of
            Inl err \<Rightarrow> []
          | Inr e \<Rightarrow>
              if (TeamID (prov w) = [] \<or> TeamID (prov w) = ui_ID (idr_Team e))
                 \<and> GroupID (prov w) \<noteq> []
              then [Slack_request env (prov w) ''groups.list'' (AccessToken s)
                      (Some groups_params)]
              else [])"
    by (auto simp: GetEmailAddress_def getIdentity_world [OF id] getGroups_world [OF gr]
        id prov_emit hasTeamID_def requests_emit split: sum.splits)
qed

theorem team_mismatch_skips_groups_witness:
  "fst (getIdentity (stub_env upstream_A) (AccessToken session)
          (start (slack_provider ''T2'' ''G9''))) = Inr identity_A
   \<and> TeamID (prov (start (slack_provider ''T2'' ''G9''))) \<noteq> []
   \<and> ui_ID (idr_Team identity_A) \<noteq> TeamID (prov (start (slack_provider ''T2'' ''G9'')))
   \<and> fst (GetEmailAddress (stub_env upstream_A) session (start (slack_provider ''T2'' ''G9'')))
       = ([], Some TeamMismatch)
   \<and> map (\<lambda>r. Path (req_URL r))
         (requests (events (snd (GetEmailAddress (stub_env upstream_A) session
                                    (start (slack_provider ''T2'' ''G9''))))))
       = [''/api/users.identity'']
   \<and> map (\<lambda>r. Path (req_URL r))
         (requests (events (snd (GetEmailAddress (stub_env upstream_A) session
                                    (start (slack_provider ''T1'' ''G9''))))))
       = [''/api/users.identity'', ''/api/groups.list'']"
  using team_mismatch_skips_groups [of "stub_env upstream_A" session
      "start (slack_provider ''T2'' ''G9'')" identity_A]
    team_mismatch_skips_groups [of "stub_env upstream_A" session
      "start (slack_provider ''T1'' ''G9'')" identity_A]
  by (simp add: scenario_defs slack_defs requests_def)

subsection \<open>The envelope's own flag\<close>

text \<open>
  Claim C6. When the call to the identity endpoint (and likewise to the group-listing
  endpoint) succeeds with status 200 and a body that decodes, the resolver returns
  the decoded envelope as it is and no error if the envelope's \<open>ok\<close> flag is true, and
  an error and no envelope if the flag is false.
\<close>

theorem envelope_ok_flag:
  "(http_Do env (Slack_request env (prov w) ''users.identity'' tok None) = Inr resp
      \<and> Body resp = Inr body \<and> StatusCode resp = 200
      \<and> Unmarshal_identity env body = Inr e \<longrightarrow>
      fst (getIdentity env tok w) = (if idr_OK e then Inr e else Inl (IdentityNotOk e)))
   \<and> (http_Do env (Slack_request env (prov w) ''groups.list'' tok (Some groups_params))
         = Inr resp
      \<and> Body resp = Inr body \<and> StatusCode resp = 200
      \<and> Unmarshal_groups env body = Inr gl \<longrightarrow>
      fst (getGroups env tok w) = (if glr_OK gl then Inr gl else Inl (GroupsNotOk gl)))"
  by (simp add: getIdentity_def getGroups_def getEndpoint_def)

theorem envelope_ok_flag_witness:
  "fst (getIdentity (stub_env upstream_not_ok) ''xoxp-secret'' (start (slack_provider [] [])))
     = Inl (IdentityNotOk (identity_A\<lparr>idr_OK := False\<rparr>))
   \<and> fst (getGroups (stub_env upstream_not_ok) ''xoxp-secret'' (start (slack_provider [] [])))
     = Inl (GroupsNotOk (groups_G1_G9\<lparr>glr_OK := False\<rparr>))
   \<and> fst (getIdentity (stub_env upstream_A) ''xoxp-secret'' (start (slack_provider [] [])))
     = Inr identity_A
   \<and> fst (getGroups (stub_env upstream_A) ''xoxp-secret'' (start (slack_provider [] [])))
     = Inr groups_G1_G9"
  using envelope_ok_flag [of "stub_env upstream_not_ok" "start (slack_provider [] [])"
      "''xoxp-secret''" "ok_response ''{ok:false}''" "''{ok:false}''"
      "identity_A\<lparr>idr_OK := False\<rparr>" "groups_G1_G9\<lparr>glr_OK := False\<rparr>"]
    envelope_ok_flag [of "stub_env upstream_A" "start (slack_provider [] [])"
      "''xoxp-secret''" "ok_response ''{ok:true,user:{email:a@x.com},team:{id:T1}}''"
      "''{ok:true,user:{email:a@x.com},team:{id:T1}}''" identity_A groups_G1_G9]
    envelope_ok_flag [of "stub_env upstream_A" "start (slack_provider [] [])"
      "''xoxp-secret''" "ok_response ''{ok:true,groups:[{id:G1},{id:G9}]}''"
      "''{ok:true,groups:[{id:G1},{id:G9}]}''" identity_A groups_G1_G9]
  by (simp add: scenario_defs slack_defs)

subsection \<open>Fetch failures\<close>

text \<open>
  Claim C1 says that \<^verbatim>\<open>GetEmailAddress\<close> answers a failed fetch with the empty string
  and a nil error, never with the fetch error. The Slack provider does; the Spaces
  provider returns the error of its \<^verbatim>\<open>getEndpoint\<close>. When the identity endpoint answers
  500, the Spaces \<^verbatim>\<open>GetEmailAddress\<close> returns the status error:
\<close>

theorem Spaces_propagates_fetch_error:
  "fst (Spaces_GetEmailAddress (stub_env upstream_identity_500) session
          (start (spaces_provider ''S1'')))
     = ([], Some (StatusError 500
          \<lparr>Scheme = ''https'', Host = ''api.spaces.de'', Path = ''/v1/users/me/profile'',
            RawQuery = []\<rparr> ''internal error''))"
  by (simp add: scenario_defs spaces_defs emit_def Let_def)

text \<open>
  Claim C1, as amended. In the Slack provider, if \<^verbatim>\<open>getIdentity\<close> fails (transport
  error, read error, status other than 200, decode error or envelope not ok), or if it
  succeeds, the team check passes, a \<open>GroupID\<close> is configured and \<^verbatim>\<open>getGroups\<close> fails,
  then \<^verbatim>\<open>GetEmailAddress\<close> returns the empty string and a nil error. In the Spaces
  provider, if the fetch of the user fails, or a \<open>SpaceID\<close> is configured and the fetch
  of the space fails, \<^verbatim>\<open>GetEmailAddress\<close> returns the empty string and that error.
\<close>

theorem fetch_failures:
  "(fst (getIdentity env (AccessToken s) w) = Inl err \<longrightarrow>
      fst (GetEmailAddress env s w) = ([], None))
   \<and> (fst (getIdentity env (AccessToken s) w) = Inr e
        \<and> (TeamID (prov w) = [] \<or> TeamID (prov w) = ui_ID (idr_Team e))
        \<and> GroupID (prov w) \<noteq> []
        \<and> fst (getGroups env (AccessToken s) w) = Inl err \<longrightarrow>
      fst (GetEmailAddress env s w) = ([], None))
   \<and> (fst (Spaces_getEndpoint env (APIUser (prov v)) (AccessToken s) None
               (Unmarshal_spaces_user env) v) = Inl err \<longrightarrow>
      fst (Spaces_GetEmailAddress env s v) = ([], Some err))
   \<and> (fst (Spaces_getEndpoint env (APIUser (prov v)) (AccessToken s) None
               (Unmarshal_spaces_user env) v) = Inr (r, u)
        \<and> SpaceID (prov v) \<noteq> []
        \<and> fst (Spaces_getEndpoint env (fmt_Sprintf env (APISpace (prov v)) (SpaceID (prov v)))
                 (AccessToken s) None (Unmarshal_spaces_space env) v) = Inl err \<longrightarrow>
      fst (Spaces_GetEmailAddress env s v) = ([], Some err))"
proof (intro conjI impI)
  assume id: "fst (getIdentity env (AccessToken s) w) = Inl err"
  show "fst (GetEmailAddress env s w) = ([], None)"
    by (simp add: GetEmailAddress_def getIdentity_world [OF id])
next
  let ?w1 = "emit (HTTP_Do (Slack_request env (prov w) ''users.identity'' (AccessToken s) None)) w"
  assume a: "fst (getIdentity env (AccessToken s) w) = Inr e
        \<and> (TeamID (prov w) = [] \<or> TeamID (prov w) = ui_ID (idr_Team e))
        \<and> GroupID (prov w) \<noteq> []
        \<and> fst (getGroups env (AccessToken s) w) = Inl err"
  then have id: "fst (getIdentity env (AccessToken s) w) = Inr e"
    by simp
  from a have gr: "fst (getGroups env (AccessToken s) ?w1) = Inl err"
    using getGroups_fst_cong [of ?w1 w env "AccessToken s"] by (simp add: prov_emit)
  show "fst (GetEmailAddress env s w) = ([], None)"
    using a
    by (auto simp: GetEmailAddress_def getIdentity_world [OF id] getGroups_world [OF gr]
        prov_emit hasTeamID_def)
next
  assume f: "fst (Spaces_getEndpoint env (APIUser (prov v)) (AccessToken s) None
               (Unmarshal_spaces_user env) v) = Inl err"
  obtain v1 where
    "Spaces_getEndpoint env (APIUser (prov v)) (AccessToken s) None
       (Unmarshal_spaces_user env) v = (Inl err, v1)"
    using Spaces_getEndpoint_world [OF f] by blast
  then show "fst (Spaces_GetEmailAddress env s v) = ([], Some err)"
    by (simp add: Spaces_GetEmailAddress_def)
next
  assume a: "fst (Spaces_getEndpoint env (APIUser (prov v)) (AccessToken s) None
               (Unmarshal_spaces_user env) v) = Inr (r, u)
        \<and> SpaceID (prov v) \<noteq> []
        \<and> fst (Spaces_getEndpoint env (fmt_Sprintf env (APISpace (prov v)) (SpaceID (prov v)))
                 (AccessToken s) None (Unmarshal_spaces_space env) v) = Inl err"
  then obtain v1 where
    u: "Spaces_getEndpoint env (APIUser (prov v)) (AccessToken s) None
          (Unmarshal_spaces_user env) v = (Inr (r, u), v1)" and p1: "prov v1 = prov v"
    using Spaces_getEndpoint_world by blast
  have "fst (Spaces_getEndpoint env (fmt_Sprintf env (APISpace (prov v)) (SpaceID (prov v)))
          (AccessToken s) None (Unmarshal_spaces_space env) v1) = Inl err"
    using a by (simp add: Spaces_getEndpoint_fst_cong [OF p1])
  then obtain v2 where
    sp: "Spaces_getEndpoint env (fmt_Sprintf env (APISpace (prov v)) (SpaceID (prov v)))
          (AccessToken s) None (Unmarshal_spaces_space env) v1 = (Inl err, v2)"
    using Spaces_getEndpoint_world by blast
  show "fst (Spaces_GetEmailAddress env s v) = ([], Some err)"
    using a by (simp add: Spaces_GetEmailAddress_def u p1 sp)
qed

text \<open>
  The four ways the identity fetch fails (connection refused, status 500, a body that
  does not decode, an envelope that is not ok), a group fetch that fails after the
  team check has passed, and a Spaces fetch that fails.
\<close>

theorem fetch_failures_witness:
  "fst (getIdentity (stub_env upstream_down) (AccessToken session) (start (slack_provider [] [])))
     = Inl (TransportError ''connection refused'')
   \<and> fst (GetEmailAddress (stub_env upstream_down) session (start (slack_provider [] [])))
     = ([], None)
   \<and> fst (GetEmailAddress (stub_env upstream_identity_500) session (start (slack_provider [] [])))
     = ([], None)
   \<and> fst (getIdentity (stub_env upstream_garbage) (AccessToken session)
            (start (slack_provider [] [])))
     = Inl (UnmarshalError ''invalid character'')
   \<and> fst (GetEmailAddress (stub_env upstream_garbage) session (start (slack_provider [] [])))
     = ([], None)
   \<and> fst (getIdentity (stub_env upstream_not_ok) (AccessToken session)
            (start (slack_provider [] [])))
     = Inl (IdentityNotOk (identity_A\<lparr>idr_OK := False\<rparr>))
   \<and> fst (GetEmailAddress (stub_env upstream_not_ok) session (start (slack_provider [] [])))
     = ([], None)
   \<and> fst (getIdentity (stub_env upstream_groups_down) (AccessToken session)
            (start (slack_provider ''T1'' ''G9'')))
     = Inr identity_A
   \<and> fst (getGroups (stub_env upstream_groups_down) (AccessToken session)
            (start (slack_provider ''T1'' ''G9'')))
     = Inl (TransportError ''connection refused'')
   \<and> fst (GetEmailAddress (stub_env upstream_groups_down) session
            (start (slack_provider ''T1'' ''G9'')))
     = ([], None)
   \<and> fst (Spaces_GetEmailAddress (stub_env upstream_down) session
            (start (spaces_provider ''S1'')))
     = ([], Some (TransportError ''connection refused''))"
  using fetch_failures [of "stub_env upstream_down" session "start (slack_provider [] [])"
      "TransportError ''connection refused''" identity_A "start (spaces_provider ''S1'')"]
    fetch_failures [of "stub_env upstream_garbage" session "start (slack_provider [] [])"
      "UnmarshalError ''invalid character''" identity_A "start (spaces_provider ''S1'')"]
    fetch_failures [of "stub_env upstream_not_ok" session "start (slack_provider [] [])"
      "IdentityNotOk (identity_A\<lparr>idr_OK := False\<rparr>)" identity_A
      "start (spaces_provider ''S1'')"]
    fetch_failures [of "stub_env upstream_groups_down" session
      "start (slack_provider ''T1'' ''G9'')"
      "TransportError ''connection refused''" identity_A "start (spaces_provider ''S1'')"]
  by (simp add: scenario_defs slack_defs spaces_defs)

subsection \<open>The Spaces policy\<close>

text \<open>
  Claim C9. In the Spaces provider with a non-empty \<open>SpaceID\<close>, once the user is
  resolved, \<^verbatim>\<open>GetEmailAddress\<close> returns the user's email whenever the call to the
  space endpoint answers 200 with a body that decodes, whatever space the decoded
  record describes: its \<open>ID\<close> is never compared with \<open>SpaceID\<close>.
\<close>

theorem Spaces_space_id_unchecked:
  assumes "SpaceID (prov v) \<noteq> []"
    and "fst (Spaces_getEndpoint env (APIUser (prov v)) (AccessToken s) None
               (Unmarshal_spaces_user env) v) = Inr (r, u)"
    and "http_Do env (Spaces_request env (prov v)
               (fmt_Sprintf env (APISpace (prov v)) (SpaceID (prov v))) (AccessToken s) None)
           = Inr resp"
    and "Body resp = Inr body" and "StatusCode resp = 200"
    and "Unmarshal_spaces_space env body = Inr space"
  shows "fst (Spaces_GetEmailAddress env s v) = (sui_EMail u, None)"
proof -
  obtain v1 where
    u: "Spaces_getEndpoint env (APIUser (prov v)) (AccessToken s) None
          (Unmarshal_spaces_user env) v = (Inr (r, u), v1)" and p1: "prov v1 = prov v"
    using Spaces_getEndpoint_world [OF assms(2)] by blast
  have "fst (Spaces_getEndpoint env (fmt_Sprintf env (APISpace (prov v)) (SpaceID (prov v)))
          (AccessToken s) None (Unmarshal_spaces_space env) v1) = Inr (resp, space)"
    using assms(3-6) by (simp add: Spaces_getEndpoint_def p1)
  then obtain v2 where
    sp: "Spaces_getEndpoint env (fmt_Sprintf env (APISpace (prov v)) (SpaceID (prov v)))
          (AccessToken s) None (Unmarshal_spaces_space env) v1 = (Inr (resp, space), v2)"
    using Spaces_getEndpoint_world by blast
  show ?thesis
    using assms(1) by (simp add: Spaces_GetEmailAddress_def u p1 sp)
qed

text \<open>
  With \<open>SpaceID\<close> set to \<open>S1\<close> by \<^verbatim>\<open>SetSpaceID\<close> and a space record whose \<open>ID\<close> is
  \<open>OTHER\<close>, the email is returned.
\<close>

theorem Spaces_space_id_unchecked_witness:
  "SpaceID (prov (SetSpaceID ''S1'' (start (spaces_provider [])))) = ''S1''
   \<and> Unmarshal_spaces_space (stub_env upstream_spaces) ''{id:OTHER}''
       = Inr \<lparr>ssr_ID = ''OTHER''\<rparr>
   \<and> fst (Spaces_GetEmailAddress (stub_env upstream_spaces) session
            (SetSpaceID ''S1'' (start (spaces_provider [])))) = (''b@y.org'', None)"
  using Spaces_space_id_unchecked [of "SetSpaceID ''S1'' (start (spaces_provider []))"
      "stub_env upstream_spaces"
      session "ok_response ''{id:U7,email:b@y.org}''" "\<lparr>sui_ID = ''U7'', sui_EMail = ''b@y.org''\<rparr>"
      "ok_response ''{id:OTHER}''" "''{id:OTHER}''" "\<lparr>ssr_ID = ''OTHER''\<rparr>"]
  by (simp add: scenario_defs spaces_defs emit_def Let_def)

subsection \<open>Idempotence\<close>

text \<open>
  Claim C10. Calling \<^verbatim>\<open>GetEmailAddress\<close> twice in succession with the same session
  against the same upstream gives the same result both times, in the Slack and in the
  Spaces provider, and the first call leaves the provider as it found it.
\<close>

theorem GetEmailAddress_idempotent:
  "fst (GetEmailAddress env s (snd (GetEmailAddress env s w))) = fst (GetEmailAddress env s w)
   \<and> prov (snd (GetEmailAddress env s w)) = prov w
   \<and> fst (Spaces_GetEmailAddress env s (snd (Spaces_GetEmailAddress env s v)))
       = fst (Spaces_GetEmailAddress env s v)
   \<and> prov (snd (Spaces_GetEmailAddress env s v)) = prov v"
  using GetEmailAddress_fst_cong [OF GetEmailAddress_prov]
    Spaces_GetEmailAddress_fst_cong [OF Spaces_GetEmailAddress_prov]
  by (simp add: GetEmailAddress_prov Spaces_GetEmailAddress_prov)

theorem GetEmailAddress_idempotent_witness:
  "fst (GetEmailAddress (stub_env upstream_A) session
          (snd (GetEmailAddress (stub_env upstream_A) session (start (slack_provider ''T1'' ''G9'')))))
     = (''a@x.com'', None)
   \<and> fst (GetEmailAddress (stub_env upstream_A) session (start (slack_provider ''T1'' ''G9'')))
     = (''a@x.com'', None)
   \<and> fst (Spaces_GetEmailAddress (stub_env upstream_spaces) session
          (snd (Spaces_GetEmailAddress (stub_env upstream_spaces) session
                  (start (spaces_provider ''S1'')))))
     = (''b@y.org'', None)
   \<and> fst (Spaces_GetEmailAddress (stub_env upstream_spaces) session
            (start (spaces_provider ''S1'')))
     = (''b@y.org'', None)"
  using GetEmailAddress_idempotent [of "stub_env upstream_A" session
      "start (slack_provider ''T1'' ''G9'')" "start (spaces_provider ''S1'')"]
    GetEmailAddress_idempotent [of "stub_env upstream_spaces" session
      "start (slack_provider ''T1'' ''G9'')" "start (spaces_provider ''S1'')"]
  by (simp add: scenario_defs slack_defs spaces_defs)

subsection \<open>Scope escalation\<close>

text \<open>
  Claim C7 says that \<^verbatim>\<open>SecondAttempt\<close> is true iff a \<open>GroupID\<close> is configured and the
  granted scopes lack group-read, and that a second call right after an escalation is
  false. \<^verbatim>\<open>SecondAttempt\<close> of \<^verbatim>\<open>slack.go\<close> keeps no state: with \<open>GroupID = G9\<close> and an
  upstream that reports the identity scopes, it is true, and true again on the next
  call. It is also false, with the same \<open>GroupID\<close>, when the probe answers 500 with a
  scope header that lacks the groups scope.
\<close>

theorem SecondAttempt_repeats:
  "fst (SecondAttempt (stub_env upstream_A) session (start (slack_provider [] ''G9'')))
   \<and> fst (SecondAttempt (stub_env upstream_A) session
            (snd (SecondAttempt (stub_env upstream_A) session (start (slack_provider [] ''G9'')))))
   \<and> \<not> fst (SecondAttempt (stub_env upstream_scopes_500) session
                (start (slack_provider [] ''G9'')))"
  by (simp add: scenario_defs slack_defs)

text \<open>
  Claim C7, as amended. In the earlier revision \<^verbatim>\<open>SecondAttempt\<close> is true iff \<open>GroupID\<close>
  is non-empty and the configured \<open>Scope\<close> does not contain \<^verbatim>\<open>groups:read\<close>, and a call
  that follows any call is false. In \<^verbatim>\<open>slack.go\<close> \<^verbatim>\<open>SecondAttempt\<close> is true iff
  \<open>GroupID\<close> is non-empty, the call to \<^verbatim>\<open>auth.test\<close> succeeds and its
  \<^verbatim>\<open>X-Oauth-Scopes\<close> header does not contain \<^verbatim>\<open>groups\<close>; against the same upstream a
  second call gives what the first one gave.
\<close>

theorem SecondAttempt_escalation:
  "(fst (SecondAttempt_scope w) \<longleftrightarrow>
      GroupID (prov w) \<noteq> [] \<and> \<not> strings_Contains (Scope (prov w)) ''groups:read'')
   \<and> \<not> fst (SecondAttempt_scope (snd (SecondAttempt_scope w)))
   \<and> (fst (SecondAttempt env s w) \<longleftrightarrow>
        GroupID (prov w) \<noteq> []
        \<and> (\<exists>resp a. fst (getEndpoint env ''auth.test'' (AccessToken s) None
                            (Unmarshal_authtest env) w) = Inr (resp, a)
               \<and> \<not> strings_Contains (Header_Get (Header resp) ''X-Oauth-Scopes'') ''groups''))
   \<and> fst (SecondAttempt env s (snd (SecondAttempt env s w))) = fst (SecondAttempt env s w)"
proof (intro conjI)
  show "fst (SecondAttempt_scope w) \<longleftrightarrow>
      GroupID (prov w) \<noteq> [] \<and> \<not> strings_Contains (Scope (prov w)) ''groups:read''"
    by (simp add: SecondAttempt_scope_def Let_def prov_emit)
next
  show "\<not> fst (SecondAttempt_scope (snd (SecondAttempt_scope w)))"
    by (simp add: SecondAttempt_scope_def Let_def prov_emit)
next
  show "fst (SecondAttempt env s w) \<longleftrightarrow>
        GroupID (prov w) \<noteq> []
        \<and> (\<exists>resp a. fst (getEndpoint env ''auth.test'' (AccessToken s) None
                            (Unmarshal_authtest env) w) = Inr (resp, a)
               \<and> \<not> strings_Contains (Header_Get (Header resp) ''X-Oauth-Scopes'') ''groups'')"
    by (auto simp: SecondAttempt_def getEndpoint_def Let_def prov_emit split: sum.splits)
next
  show "fst (SecondAttempt env s (snd (SecondAttempt env s w))) = fst (SecondAttempt env s w)"
    by (rule SecondAttempt_fst_cong) (rule SecondAttempt_prov)
qed

text \<open>
  In the earlier revision: true with \<open>GroupID = G9\<close>, false on the call after it, false
  with no \<open>GroupID\<close>. In \<^verbatim>\<open>slack.go\<close>: true while the upstream reports the identity
  scopes only, false once it reports \<^verbatim>\<open>groups:read\<close>, false with no \<open>GroupID\<close>.
\<close>

theorem SecondAttempt_escalation_witness:
  "fst (SecondAttempt_scope (start (slack_provider [] ''G9'')))
   \<and> \<not> fst (SecondAttempt_scope (snd (SecondAttempt_scope (start (slack_provider [] ''G9'')))))
   \<and> \<not> fst (SecondAttempt_scope (start (slack_provider [] [])))
   \<and> fst (SecondAttempt (stub_env upstream_A) session (start (slack_provider [] ''G9'')))
   \<and> \<not> fst (SecondAttempt (stub_env upstream_escalated) session
                (start (slack_provider [] ''G9'')))
   \<and> \<not> fst (SecondAttempt (stub_env upstream_A) session (start (slack_provider [] [])))"
  using SecondAttempt_escalation [of "start (slack_provider [] ''G9'')" "stub_env upstream_A"
      session]
    SecondAttempt_escalation [of "start (slack_provider [] [])" "stub_env upstream_escalated"
      session]
  by (simp add: scenario_defs slack_defs)

text \<open>
  Claim C8 says that \<^verbatim>\<open>SecondAttempt\<close> leaves the provider's configuration (\<open>Scope\<close>,
  \<open>TeamID\<close>, \<open>GroupID\<close>) unchanged. \<^verbatim>\<open>SecondAttempt\<close> of \<^verbatim>\<open>slack.go\<close> does
  (\<open>SecondAttempt_prov\<close>). The earlier revision does not: with \<open>GroupID = G9\<close> and the
  default scope it returns true and leaves \<^verbatim>\<open>groups:read\<close> as the scope of the
  provider, which every later login shares.
\<close>

theorem SecondAttempt_scope_overwrites_Scope:
  "Scope (prov (start (slack_provider [] ''G9''))) = ''identity.basic identity.email''
   \<and> fst (SecondAttempt_scope (start (slack_provider [] ''G9'')))
   \<and> Scope (prov (snd (SecondAttempt_scope (start (slack_provider [] ''G9''))))) = ''groups:read''"
  by (simp add: scenario_defs slack_defs)

subsection \<open>What the endpoint client writes\<close>

text \<open>
  Claim C2 says that the endpoint client never writes the access token to a log or to
  the console. The Slack \<^verbatim>\<open>getEndpoint\<close> writes nothing (\<open>getEndpoint_snd\<close>: all it
  leaves is the request). The Spaces \<^verbatim>\<open>getEndpoint\<close> prints the token on standard
  output before it sends the request: called with the token \<^verbatim>\<open>xoxp-secret\<close> against
  an upstream that refuses the connection, it leaves the printed token and the
  request.
\<close>

theorem Spaces_getEndpoint_prints_token:
  "events (snd (Spaces_getEndpoint (stub_env upstream_down) ''users/me/profile'' ''xoxp-secret''
                  None (Unmarshal_spaces_user (stub_env upstream_down))
                  (start (spaces_provider []))))
     = [Println_string ''xoxp-secret'',
        HTTP_Do \<lparr>req_Method = ''GET'',
                 req_URL = \<lparr>Scheme = ''https'', Host = ''api.spaces.de'',
                              Path = ''/v1/users/me/profile'', RawQuery = []\<rparr>,
                 req_Header = [''Authorization'' \<mapsto> [''Bearer xoxp-secret'']]\<rparr>]"
  by (simp add: scenario_defs spaces_defs emit_def Let_def)

end
